theory Spec2Isabelle
  imports Main
begin

section \<open>Automatic migration snapshots (plugins/migratecmd/automigrate.go)\<close>

text \<open>
  The three functions of \<^verbatim>\<open>automigrate.go\<close> are embedded as state-passing functions:
  \<^verbatim>\<open>afterCollectionChange\<close> (lines 19-75), \<^verbatim>\<open>refreshCachedCollections\<close> (lines 77-95)
  and \<^verbatim>\<open>getCachedCollections\<close> (lines 97-107). The mutable parts (the application
  cache and the files on disk) are fields of a state record that every function returns
  updated, together with the list of the effects it performed, oldest first. Whatever
  the functions call outside the file (the Dao, the template renderers, the clock and
  the operating system) is an input of the model.
\<close>

subsection \<open>Errors\<close>

text \<open>
  Go error values. \<^verbatim>\<open>sql.ErrNoRows\<close> is the sentinel of database/sql,
  \<open>ErrorsNew\<close> is \<^verbatim>\<open>errors.New(msg)\<close>, \<open>Errorf\<close> is
  \<^verbatim>\<open>fmt.Errorf("msg: %w", err)\<close> (it wraps \<open>err\<close>), and \<open>External\<close> is an error
  made by the store or the operating system.
\<close>

datatype error =
    ErrNoRows
  | ErrorsNew string
  | Errorf string error
  | External string

text \<open>\<^verbatim>\<open>errors.Is(err, target)\<close>: \<open>err\<close> or an error it wraps is the target.\<close>

fun errors_Is :: "error \<Rightarrow> error \<Rightarrow> bool" where
  "errors_Is (Errorf msg inner) target =
     (if Errorf msg inner = target then True else errors_Is inner target)"
| "errors_Is err target = (err = target)"

text \<open>
  What a Go call of type \<^verbatim>\<open>error\<close> does: it returns nil, returns an error, or panics
  (a nil pointer dereference).
\<close>

datatype outcome = Success | Failure error | Panicked

subsection \<open>Data\<close>

text \<open>
  \<^verbatim>\<open>models.Collection\<close> is declared outside the source files at hand; the functions read
  its \<^verbatim>\<open>Id\<close> and \<^verbatim>\<open>Name\<close> only. \<open>Schema\<close> stands for the rest of the definition
  (fields, rules, indexes).
\<close>

record collection =
  Id_col :: string
  Name :: string
  Schema :: string

text \<open>
  What the application cache holds under a key: a value of type
  \<^verbatim>\<open>map[string]*models.Collection\<close>, or a value of some other type.
\<close>

datatype cache_value =
    CollectionsMap "string \<rightharpoonup> collection"
  | OtherValue string

text \<open>The model event: \<^verbatim>\<open>e.Model.TableName()\<close> and \<^verbatim>\<open>e.Model.GetId()\<close>.\<close>

record model_event =
  TableName :: string
  GetId :: string

datatype effect =
    CacheHas string
  | CacheGet string
  | CacheSet string cache_value
  | QueryAll
  | QueryFind string
  | Render
  | MkdirAll string
  | WriteFile string string

record state =
  cache :: "string \<rightharpoonup> cache_value"
  files :: "string \<rightharpoonup> string"
  trace :: "effect list"

definition log :: "effect \<Rightarrow> state \<Rightarrow> state" where
  "log ef s = s\<lparr>trace := trace s @ [ef]\<rparr>"

text \<open>
  Modelled from the spec: the Dao (package daos) is not among the source files. Its
  schema store query interface is \<^verbatim>\<open>get-all() -> list<Definition>\<close> and
  \<^verbatim>\<open>get-by-id-or-name(id) -> Definition | not-found\<close>; each query may also fail with
  another error. A query that fails returns no definition.
\<close>

record dao =
  CollectionQueryAll :: "error + collection list"
  FindCollectionByNameOrId :: "string \<Rightarrow> error + collection"

text \<open>
  The plugin: \<^verbatim>\<open>p.app.Dao()\<close> (nil before the application is initialised),
  \<^verbatim>\<open>p.options.Dir\<close> and \<^verbatim>\<open>p.options.TemplateLang\<close>. The constant
  \<^verbatim>\<open>TemplateLangJS\<close> and the two renderers \<^verbatim>\<open>jsDiffTemplate(new, old)\<close> and
  \<^verbatim>\<open>goDiffTemplate(new, old)\<close> are declared outside the source files at hand and are
  parameters here.
\<close>

record plugin =
  Dao :: "dao option"
  Dir :: string
  TemplateLang :: string
  TemplateLangJS :: string
  jsDiffTemplate :: "collection option \<Rightarrow> collection option \<Rightarrow> error + string"
  goDiffTemplate :: "collection option \<Rightarrow> collection option \<Rightarrow> error + string"

text \<open>
  The operating system as the handler meets it: \<^verbatim>\<open>time.Now().Unix()\<close>, and whether
  \<^verbatim>\<open>os.MkdirAll\<close> and \<^verbatim>\<open>os.WriteFile\<close> fail for a path. A write that succeeds
  leaves the file with exactly the new content, whether or not it existed
  (\<^verbatim>\<open>os.WriteFile\<close> creates or truncates); what a failed write leaves on disk is not
  modelled.
\<close>

record opsys =
  Now :: int
  MkdirAllErr :: "string \<Rightarrow> error option"
  WriteFileErr :: "string \<Rightarrow> error option"

definition collectionsCacheKey :: string where
  "collectionsCacheKey = ''migratecmd_collections''"

subsection \<open>refreshCachedCollections and getCachedCollections\<close>

text \<open>The loop \<^verbatim>\<open>for _, c := range collections { mapped[c.Id] = c }\<close>.\<close>

fun mapCollections :: "(string \<rightharpoonup> collection) \<Rightarrow> collection list \<Rightarrow> (string \<rightharpoonup> collection)" where
  "mapCollections mapped [] = mapped"
| "mapCollections mapped (c # cs) = mapCollections (mapped(Id_col c \<mapsto> c)) cs"

definition refreshCachedCollections :: "plugin \<Rightarrow> state \<Rightarrow> error option \<times> state" where
  "refreshCachedCollections p s =
     (case Dao p of
        None \<Rightarrow> (Some (ErrorsNew ''app is not initialized yet''), s)
      | Some d \<Rightarrow>
          (case CollectionQueryAll d of
             Inl err \<Rightarrow> (Some err, log QueryAll s)
           | Inr collections \<Rightarrow>
               (let mapped = mapCollections Map.empty collections;
                    s1 = log QueryAll s;
                    s2 = log (CacheSet collectionsCacheKey (CollectionsMap mapped)) s1
                in (None,
                    s2\<lparr>cache := (cache s2)(collectionsCacheKey \<mapsto> CollectionsMap mapped)\<rparr>))))"

text \<open>
  The result of \<^verbatim>\<open>getCachedCollections\<close>: an error, or a map that may be nil
  (\<open>None\<close>). The comma-ok type assertion yields the nil map when the cached value is not
  a \<^verbatim>\<open>map[string]*models.Collection\<close>.
\<close>

definition typeAssert :: "cache_value option \<Rightarrow> (string \<rightharpoonup> collection) option" where
  "typeAssert v = (case v of Some (CollectionsMap m) \<Rightarrow> Some m | _ \<Rightarrow> None)"

definition cacheGet :: "state \<Rightarrow> (string \<rightharpoonup> collection) option \<times> state" where
  "cacheGet s =
     (typeAssert (cache s collectionsCacheKey), log (CacheGet collectionsCacheKey) s)"

definition getCachedCollections ::
  "plugin \<Rightarrow> state \<Rightarrow> (error + (string \<rightharpoonup> collection) option) \<times> state" where
  "getCachedCollections p s =
     (let s0 = log (CacheHas collectionsCacheKey) s in
      if cache s0 collectionsCacheKey = None then
        (case refreshCachedCollections p s0 of
           (Some err, s1) \<Rightarrow> (Inl err, s1)
         | (None, s1) \<Rightarrow> (case cacheGet s1 of (result, s2) \<Rightarrow> (Inr result, s2)))
      else (case cacheGet s0 of (result, s2) \<Rightarrow> (Inr result, s2)))"

subsection \<open>File names\<close>

text \<open>\<^verbatim>\<open>%d\<close> of \<^verbatim>\<open>fmt.Sprintf\<close> on an \<^verbatim>\<open>int64\<close>: the decimal digits, with a minus sign.\<close>

fun showNat :: "nat \<Rightarrow> string" where
  "showNat n =
     (if n < 10 then [''0123456789'' ! n]
      else showNat (n div 10) @ [''0123456789'' ! (n mod 10)])"

declare showNat.simps [simp del]

definition showInt :: "int \<Rightarrow> string" where
  "showInt i = (if i < 0 then CHR ''-'' # showNat (nat (- i)) else showNat (nat i))"

text \<open>
  \<^verbatim>\<open>filepath.Join\<close> of the Go library on Unix: the non-empty elements are joined with
  the separator and the result is cleaned (\<^verbatim>\<open>filepath.Clean\<close>): empty and \<^verbatim>\<open>.\<close>
  elements are dropped, a \<^verbatim>\<open>..\<close> element removes the element before it, or stays at
  the start of a path that is not rooted, or is dropped at the root; the empty path
  becomes \<^verbatim>\<open>.\<close>.
\<close>

fun splitSep :: "string \<Rightarrow> string \<Rightarrow> string list" where
  "splitSep cur [] = [rev cur]"
| "splitSep cur (c # cs) =
     (if c = CHR ''/'' then rev cur # splitSep [] cs else splitSep (c # cur) cs)"

fun cleanElems :: "bool \<Rightarrow> string list \<Rightarrow> string list \<Rightarrow> string list" where
  "cleanElems rooted out [] = rev out"
| "cleanElems rooted out (el # els) =
     (if el = [] \<or> el = ''.'' then cleanElems rooted out els
      else if el = ''..'' then
        (case out of
           [] \<Rightarrow> (if rooted then cleanElems rooted out els
                  else cleanElems rooted [''..''] els)
         | lastEl # below \<Rightarrow>
             (if lastEl = ''..'' then cleanElems rooted (''..'' # out) els
              else cleanElems rooted below els))
      else cleanElems rooted (el # out) els)"

fun joinSep :: "string list \<Rightarrow> string" where
  "joinSep [] = []"
| "joinSep [el] = el"
| "joinSep (el # els) = el @ CHR ''/'' # joinSep els"

definition filepath_Clean :: "string \<Rightarrow> string" where
  "filepath_Clean path =
     (let rooted = (case path of [] \<Rightarrow> False | c # _ \<Rightarrow> c = CHR ''/'');
          body = joinSep (cleanElems rooted [] (splitSep [] path));
          out = (if rooted then CHR ''/'' # body else body)
      in if out = [] then ''.'' else out)"

definition filepath_Join :: "string list \<Rightarrow> string" where
  "filepath_Join elem =
     (case dropWhile (\<lambda>el. el = []) elem of
        [] \<Rightarrow> []
      | rest \<Rightarrow> filepath_Clean (joinSep rest))"

subsection \<open>afterCollectionChange\<close>

text \<open>
  Lines 49-57: the action label. \<^verbatim>\<open>old.Name\<close> with \<^verbatim>\<open>old == nil\<close> dereferences a nil
  pointer; the result is \<open>None\<close> there.
\<close>

definition actionLabel :: "collection option \<Rightarrow> collection option \<Rightarrow> string option" where
  "actionLabel new old =
     (case new of
        None \<Rightarrow> (case old of None \<Rightarrow> None | Some oldc \<Rightarrow> Some (''deleted_'' @ Name oldc))
      | Some newc \<Rightarrow>
          (case old of
             None \<Rightarrow> Some (''created_'' @ Name newc)
           | Some oldc \<Rightarrow> Some (''updated_'' @ Name oldc)))"

text \<open>
  Lines 38-44: the renderer is chosen by \<^verbatim>\<open>p.options.TemplateLang\<close>. Line 60: the
  destination. Lines 38-73 (\<open>writeSnapshot\<close>) run from the rendering to the end, given
  \<^verbatim>\<open>old\<close> and \<^verbatim>\<open>new\<close>. The error that \<^verbatim>\<open>p.refreshCachedCollections()\<close> returns
  on line 71 is dropped, as the source drops it.
\<close>

definition renderTemplate :: "plugin \<Rightarrow> collection option \<Rightarrow> collection option \<Rightarrow> error + string" where
  "renderTemplate p new old =
     (if TemplateLang p = TemplateLangJS p then jsDiffTemplate p new old
      else goDiffTemplate p new old)"

definition fileDest :: "plugin \<Rightarrow> opsys \<Rightarrow> string \<Rightarrow> string" where
  "fileDest p sys action =
     filepath_Join [Dir p, showInt (Now sys) @ ''_'' @ action @ ''.'' @ TemplateLang p]"

definition writeSnapshot ::
  "plugin \<Rightarrow> opsys \<Rightarrow> collection option \<Rightarrow> collection option \<Rightarrow> state \<Rightarrow> outcome \<times> state" where
  "writeSnapshot p sys old new s =
     (let s1 = log Render s
      in case renderTemplate p new old of
        Inl templateErr \<Rightarrow> (Failure (Errorf ''failed to resolve template'' templateErr), s1)
      | Inr template \<Rightarrow>
          (case actionLabel new old of
             None \<Rightarrow> (Panicked, s1)
           | Some action \<Rightarrow>
               (let dest = fileDest p sys action;
                    s2 = log (MkdirAll (Dir p)) s1
                in case MkdirAllErr sys (Dir p) of
                  Some err \<Rightarrow> (Failure (Errorf ''failed to create migration dir'' err), s2)
                | None \<Rightarrow>
                    (let s3 = log (WriteFile dest template) s2
                     in case WriteFileErr sys dest of
                       Some err \<Rightarrow> (Failure (Errorf ''failed to save automigrate file'' err), s3)
                     | None \<Rightarrow>
                         (let s4 = s3\<lparr>files := (files s3)(dest \<mapsto> template)\<rparr>
                          in (Success, snd (refreshCachedCollections p s4)))))))"

text \<open>
  Indexing the map of line 31: a nil map and a missing key both give the nil pointer.
\<close>

definition mapIndex :: "(string \<rightharpoonup> collection) option \<Rightarrow> string \<Rightarrow> collection option" where
  "mapIndex m k = (case m of None \<Rightarrow> None | Some f \<Rightarrow> f k)"

text \<open>
  Lines 33-36: the current definition. An error that is \<^verbatim>\<open>sql.ErrNoRows\<close> (or wraps
  it) is not returned; \<^verbatim>\<open>new\<close> is nil then.
\<close>

definition resolveNew :: "dao \<Rightarrow> string \<Rightarrow> error + collection option" where
  "resolveNew d k =
     (case FindCollectionByNameOrId d k of
        Inl err \<Rightarrow> (if \<not> errors_Is err ErrNoRows then Inl err else Inr None)
      | Inr newc \<Rightarrow> Inr (Some newc))"

text \<open>
  The handler that \<^verbatim>\<open>afterCollectionChange\<close> returns. A method called through a nil
  \<^verbatim>\<open>Dao\<close> on line 33 is taken to panic.
\<close>

definition afterCollectionChange ::
  "plugin \<Rightarrow> opsys \<Rightarrow> model_event \<Rightarrow> state \<Rightarrow> outcome \<times> state" where
  "afterCollectionChange p sys e s =
     (if TableName e \<noteq> ''_collections'' then (Success, s)
      else
        (case getCachedCollections p s of
           (Inl err, s1) \<Rightarrow> (Failure err, s1)
         | (Inr oldCollections, s1) \<Rightarrow>
             (let old = mapIndex oldCollections (GetId e) in
              case Dao p of
                None \<Rightarrow> (Panicked, s1)
              | Some d \<Rightarrow>
                  (let s2 = log (QueryFind (GetId e)) s1 in
                   case resolveNew d (GetId e) of
                     Inl err \<Rightarrow> (Failure err, s2)
                   | Inr new \<Rightarrow> writeSnapshot p sys old new s2))))"

text \<open>
  The calls of \<^verbatim>\<open>os.WriteFile\<close> of a run, in order, with the path and the content: the
  \<open>WriteFile\<close> effects of a trace. A call that fails is in the trace too.
\<close>

fun writes :: "effect list \<Rightarrow> (string \<times> string) list" where
  "writes [] = []"
| "writes (WriteFile path content # efs) = (path, content) # writes efs"
| "writes (ef # efs) = writes efs"

text \<open>The store queries of a run: the \<open>QueryAll\<close> and \<open>QueryFind\<close> effects of a trace.\<close>

fun queries :: "effect list \<Rightarrow> effect list" where
  "queries [] = []"
| "queries (QueryAll # efs) = QueryAll # queries efs"
| "queries (QueryFind k # efs) = QueryFind k # queries efs"
| "queries (ef # efs) = queries efs"

subsection \<open>A concrete installation\<close>

text \<open>
  The collection \<^verbatim>\<open>posts\<close> before and after a field is added, a store that holds the
  new definition, and a plugin configured as \<^verbatim>\<open>examples/base/main.go\<close> configures it
  (the JS dialect).
\<close>

definition posts :: collection where
  "posts = \<lparr>Id_col = ''c1'', Name = ''posts'', Schema = ''title:text''\<rparr>"

definition posts2 :: collection where
  "posts2 = \<lparr>Id_col = ''c1'', Name = ''posts'', Schema = ''title:text,body:text''\<rparr>"

definition storeDao :: dao where
  "storeDao =
     \<lparr>CollectionQueryAll = Inr [posts2],
      FindCollectionByNameOrId = (\<lambda>k. if k = ''c1'' then Inr posts2 else Inl ErrNoRows)\<rparr>"

definition scriptTemplate :: "collection option \<Rightarrow> collection option \<Rightarrow> error + string" where
  "scriptTemplate new old = Inr ''migration script''"

text \<open>
  A renderer that reports the inputs it has nothing to render for as errors: both
  definitions absent, or two equal definitions.
\<close>

definition strictTemplate :: "collection option \<Rightarrow> collection option \<Rightarrow> error + string" where
  "strictTemplate new old =
     (if new = None \<and> old = None then Inl (ErrorsNew ''both collections are nil'')
      else if new = old then Inl (ErrorsNew ''empty template'')
      else Inr ''migration script'')"

definition demoPlugin :: plugin where
  "demoPlugin =
     \<lparr>Dao = Some storeDao, Dir = ''pb_migrations'', TemplateLang = ''js'',
      TemplateLangJS = ''js'', jsDiffTemplate = scriptTemplate,
      goDiffTemplate = scriptTemplate\<rparr>"

definition demoSys :: opsys where
  "demoSys = \<lparr>Now = 1700000000, MkdirAllErr = (\<lambda>d. None), WriteFileErr = (\<lambda>f. None)\<rparr>"

definition freshState :: state where
  "freshState = \<lparr>cache = Map.empty, files = Map.empty, trace = []\<rparr>"

definition seenState :: state where
  "seenState =
     \<lparr>cache = [collectionsCacheKey \<mapsto> CollectionsMap [''c1'' \<mapsto> posts]],
      files = Map.empty, trace = []\<rparr>"

definition collEvent :: model_event where
  "collEvent = \<lparr>TableName = ''_collections'', GetId = ''c1''\<rparr>"

definition usersEvent :: model_event where
  "usersEvent = \<lparr>TableName = ''users'', GetId = ''u1''\<rparr>"

definition emptyDao :: dao where
  "emptyDao = \<lparr>CollectionQueryAll = Inr [], FindCollectionByNameOrId = (\<lambda>k. Inl ErrNoRows)\<rparr>"

text \<open>A store whose list query fails while the lookup of one definition succeeds.\<close>

definition lockedDao :: dao where
  "lockedDao =
     \<lparr>CollectionQueryAll = Inl (External ''database is locked''),
      FindCollectionByNameOrId = (\<lambda>k. if k = ''c1'' then Inr posts2 else Inl ErrNoRows)\<rparr>"

text \<open>A cache whose key holds a value of another type.\<close>

definition foreignState :: state where
  "foreignState =
     \<lparr>cache = [collectionsCacheKey \<mapsto> OtherValue ''not a map''],
      files = Map.empty, trace = []\<rparr>"

text \<open>A store whose lookup of one definition fails while the list query succeeds.\<close>

definition brokenDao :: dao where
  "brokenDao =
     \<lparr>CollectionQueryAll = Inr [posts2],
      FindCollectionByNameOrId = (\<lambda>k. Inl (External ''connection lost''))\<rparr>"

text \<open>A migrations directory that cannot be created, and a disk that cannot be written.\<close>

definition readOnlySys :: opsys where
  "readOnlySys = demoSys\<lparr>MkdirAllErr := (\<lambda>d. Some (External ''permission denied''))\<rparr>"

definition fullDiskSys :: opsys where
  "fullDiskSys = demoSys\<lparr>WriteFileErr := (\<lambda>f. Some (External ''no space left on device''))\<rparr>"

text \<open>The cache already holds the definition that the store holds.\<close>

definition unchangedState :: state where
  "unchangedState =
     \<lparr>cache = [collectionsCacheKey \<mapsto> CollectionsMap [''c1'' \<mapsto> posts2]],
      files = Map.empty, trace = []\<rparr>"

text \<open>The cache holds no collection at all.\<close>

definition noneSeenState :: state where
  "noneSeenState =
     \<lparr>cache = [collectionsCacheKey \<mapsto> CollectionsMap Map.empty],
      files = Map.empty, trace = []\<rparr>"



lemmas model_defs =
  afterCollectionChange_def writeSnapshot_def getCachedCollections_def
  refreshCachedCollections_def cacheGet_def typeAssert_def mapIndex_def actionLabel_def
  resolveNew_def renderTemplate_def fileDest_def log_def collectionsCacheKey_def Let_def

lemmas shared_defs =
  posts_def posts2_def storeDao_def scriptTemplate_def demoPlugin_def demoSys_def
  seenState_def collEvent_def

section \<open>Properties\<close>

subsection \<open>Auxiliary facts\<close>

lemma log_simps [simp]:
  "cache (log ef s) = cache s" "files (log ef s) = files s" "trace (log ef s) = trace s @ [ef]"
  by (simp_all add: log_def)

lemma writes_append [simp]: "writes (xs @ ys) = writes xs @ writes ys"
  by (induction xs rule: writes.induct) simp_all

lemma queries_append [simp]: "queries (xs @ ys) = queries xs @ queries ys"
  by (induction xs rule: queries.induct) simp_all

lemma dom_mapCollections: "dom (mapCollections m cs) = dom m \<union> Id_col ` set cs"
  by (induction cs arbitrary: m) auto

lemma mapCollections_other: "k \<notin> Id_col ` set cs \<Longrightarrow> mapCollections m cs k = m k"
  by (induction cs arbitrary: m) auto

lemma mapCollections_distinct:
  "distinct (map Id_col cs) \<Longrightarrow> c \<in> set cs \<Longrightarrow> mapCollections m cs (Id_col c) = Some c"
proof (induction cs arbitrary: m)
  case Nil
  then show ?case by simp
next
  case (Cons a cs)
  show ?case
  proof (cases "c = a")
    case True
    with Cons.prems have "Id_col c \<notin> Id_col ` set cs" by auto
    then show ?thesis using True by (simp add: mapCollections_other)
  next
    case False
    with Cons show ?thesis by auto
  qed
qed

lemma refresh_keeps_files [simp]:
  "files (snd (refreshCachedCollections p s)) = files s"
  "writes (trace (snd (refreshCachedCollections p s))) = writes (trace s)"
  by (auto simp: refreshCachedCollections_def Let_def split: option.splits sum.splits)

lemma refresh_keeps_files_pair:
  "refreshCachedCollections p s = (r, s') \<Longrightarrow>
     files s' = files s \<and> writes (trace s') = writes (trace s)"
  using refresh_keeps_files [of p s] by simp

lemma refresh_cache_cases:
  "refreshCachedCollections p s = (r, s') \<Longrightarrow>
     (case r of
        Some err \<Rightarrow> cache s' = cache s
      | None \<Rightarrow> (\<exists>d cs. Dao p = Some d \<and> CollectionQueryAll d = Inr cs \<and>
                  cache s' = (cache s)(collectionsCacheKey \<mapsto>
                               CollectionsMap (mapCollections Map.empty cs))))"
  by (auto simp: refreshCachedCollections_def Let_def split: option.splits sum.splits)

lemma getCached_keeps_files:
  "getCachedCollections p s = (r, s1) \<Longrightarrow>
     files s1 = files s \<and> writes (trace s1) = writes (trace s)"
  by (auto simp: getCachedCollections_def cacheGet_def Let_def
           dest!: refresh_keeps_files_pair split: option.splits if_splits prod.splits)

lemma getCached_cache_cases:
  "getCachedCollections p s = (r, s1) \<Longrightarrow>
     (case r of
        Inl err \<Rightarrow> cache s1 = cache s
      | Inr oc \<Rightarrow>
          (cache s1 = cache s \<or>
           (cache s collectionsCacheKey = None \<and>
            (\<exists>d cs. Dao p = Some d \<and> CollectionQueryAll d = Inr cs \<and>
               cache s1 = (cache s)(collectionsCacheKey \<mapsto>
                            CollectionsMap (mapCollections Map.empty cs))))))"
  by (auto simp: getCachedCollections_def cacheGet_def Let_def
           dest!: refresh_cache_cases split: option.splits sum.splits if_splits prod.splits)

lemma writeSnapshot_failure_cache:
  "writeSnapshot p sys old new s = (r, s') \<Longrightarrow> r \<noteq> Success \<Longrightarrow>
     cache s' = cache s \<and> files s' = files s"
  by (auto simp: writeSnapshot_def Let_def split: option.splits sum.splits)

lemma writeSnapshot_success:
  "writeSnapshot p sys old new s = (Success, s') \<Longrightarrow>
     \<exists>action template.
       renderTemplate p new old = Inr template \<and> actionLabel new old = Some action \<and>
       MkdirAllErr sys (Dir p) = None \<and> WriteFileErr sys (fileDest p sys action) = None \<and>
       files s' = (files s)(fileDest p sys action \<mapsto> template) \<and>
       writes (trace s') = writes (trace s) @ [(fileDest p sys action, template)]"
  by (auto simp: writeSnapshot_def Let_def split: option.splits sum.splits)

lemma handler_unfold:
  "TableName e = ''_collections'' \<Longrightarrow> getCachedCollections p s = (Inr oc, s1) \<Longrightarrow>
   Dao p = Some d \<Longrightarrow>
   afterCollectionChange p sys e s =
     (case resolveNew d (GetId e) of
        Inl err \<Rightarrow> (Failure err, log (QueryFind (GetId e)) s1)
      | Inr new \<Rightarrow> writeSnapshot p sys (mapIndex oc (GetId e)) new (log (QueryFind (GetId e)) s1))"
  by (simp add: afterCollectionChange_def Let_def)

lemma handler_success:
  assumes "TableName e = ''_collections''"
    and "afterCollectionChange p sys e s = (Success, s')"
  shows "\<exists>oc s1 d new action template.
       getCachedCollections p s = (Inr oc, s1) \<and> Dao p = Some d \<and>
       resolveNew d (GetId e) = Inr new \<and>
       renderTemplate p new (mapIndex oc (GetId e)) = Inr template \<and>
       actionLabel new (mapIndex oc (GetId e)) = Some action \<and>
       files s' = (files s)(fileDest p sys action \<mapsto> template) \<and>
       writes (trace s') = writes (trace s) @ [(fileDest p sys action, template)]"
proof -
  obtain r s1 where g: "getCachedCollections p s = (r, s1)" by (cases "getCachedCollections p s")
  with assms obtain oc where r: "r = Inr oc"
    by (cases r) (auto simp: afterCollectionChange_def)
  from assms g r obtain d where d: "Dao p = Some d"
    by (cases "Dao p") (auto simp: afterCollectionChange_def Let_def)
  from assms g r d obtain new where n: "resolveNew d (GetId e) = Inr new"
    by (cases "resolveNew d (GetId e)") (auto simp: afterCollectionChange_def Let_def)
  from assms g r d n
  have "writeSnapshot p sys (mapIndex oc (GetId e)) new (log (QueryFind (GetId e)) s1) = (Success, s')"
    by (simp add: afterCollectionChange_def Let_def)
  from writeSnapshot_success [OF this] getCached_keeps_files [OF g] g r d n
  show ?thesis by auto
qed

lemma handler_failure_cache:
  assumes "TableName e = ''_collections''"
    and "afterCollectionChange p sys e s = (Failure err, s')"
  shows "\<exists>r s1. getCachedCollections p s = (r, s1) \<and> cache s' = cache s1"
proof -
  obtain r s1 where g: "getCachedCollections p s = (r, s1)"
    by (cases "getCachedCollections p s")
  show ?thesis
  proof (cases r)
    case (Inl a)
    with assms g show ?thesis by (simp add: afterCollectionChange_def)
  next
    case (Inr oc)
    show ?thesis
    proof (cases "Dao p")
      case None
      with assms g Inr show ?thesis by (simp add: afterCollectionChange_def)
    next
      case (Some d)
      show ?thesis
      proof (cases "resolveNew d (GetId e)")
        case (Inl a)
        with assms g Inr Some show ?thesis by (auto simp: handler_unfold)
      next
        case (Inr new)
        with assms g \<open>r = Inr oc\<close> Some
        have "writeSnapshot p sys (mapIndex oc (GetId e)) new (log (QueryFind (GetId e)) s1)
                = (Failure err, s')"
          by (simp add: handler_unfold)
        from writeSnapshot_failure_cache [OF this] g show ?thesis by simp
      qed
    qed
  qed
qed

subsection \<open>Runs of the concrete installation\<close>

lemma showInt_demo: "showInt 1700000000 = ''1700000000''"
  by (simp add: showInt_def showNat.simps)

lemma seen_getCached:
  "getCachedCollections p seenState =
     (Inr (Some [''c1'' \<mapsto> posts]), snd (getCachedCollections p seenState))"
  by (simp add: prod_eq_iff getCachedCollections_def cacheGet_def typeAssert_def Let_def
        seenState_def)

lemma unchanged_getCached:
  "getCachedCollections p unchangedState =
     (Inr (Some [''c1'' \<mapsto> posts2]), snd (getCachedCollections p unchangedState))"
  by (simp add: prod_eq_iff getCachedCollections_def cacheGet_def typeAssert_def Let_def
        unchangedState_def)

lemma fresh_locked_getCached:
  "getCachedCollections (demoPlugin\<lparr>Dao := Some lockedDao\<rparr>) freshState =
     (Inl (External ''database is locked''),
      snd (getCachedCollections (demoPlugin\<lparr>Dao := Some lockedDao\<rparr>) freshState))"
  by (simp add: prod_eq_iff model_defs shared_defs lockedDao_def freshState_def)

lemma demo_run_success:
  "fst (afterCollectionChange demoPlugin demoSys collEvent seenState) = Success"
  by (simp add: model_defs shared_defs)


lemma created_and_deleted_runs:
  "writes (trace (snd (afterCollectionChange demoPlugin demoSys collEvent noneSeenState))) =
     [(''pb_migrations/1700000000_created_posts.js'', ''migration script'')]"
  "writes (trace (snd (afterCollectionChange (demoPlugin\<lparr>Dao := Some emptyDao\<rparr>) demoSys
                         collEvent seenState))) =
     [(''pb_migrations/1700000000_deleted_posts.js'', ''migration script'')]"
  by (simp_all add: model_defs shared_defs noneSeenState_def emptyDao_def showInt_demo filepath_Join_def filepath_Clean_def)

subsection \<open>Events on other tables\<close>

text \<open>
  C9. A model event whose table is not \<^verbatim>\<open>_collections\<close> makes the handler return nil at
  once, with no effect: the state it returns is the state it was given, so the cache and
  the files are untouched and no effect (cache read, store query, file write, cache
  refresh) was added to the trace.
\<close>

theorem non_collection_event_ignored:
  "TableName e \<noteq> ''_collections'' \<Longrightarrow> afterCollectionChange p sys e s = (Success, s)"
  by (simp add: afterCollectionChange_def)

theorem non_collection_event_ignored_witness:
  "TableName usersEvent \<noteq> ''_collections'' \<and>
   afterCollectionChange demoPlugin demoSys usersEvent freshState = (Success, freshState)"
proof -
  have h: "TableName usersEvent \<noteq> ''_collections''" by (simp add: usersEvent_def)
  from non_collection_event_ignored [OF h] h show ?thesis by simp
qed

subsection \<open>The snapshot cache\<close>

text \<open>
  C10. When the cache key is present, \<^verbatim>\<open>getCachedCollections\<close> performs the two cache
  reads (\<^verbatim>\<open>Has\<close>, \<^verbatim>\<open>Get\<close>) and nothing else: no store query, no change of the cache, and
  it returns no error. Its result is the cached map, or the nil map when the value under
  the key is not a collection map; indexing the nil map gives the nil pointer for every
  identifier, as a map with no collections does.
\<close>

theorem getCachedCollections_key_present:
  assumes "cache s collectionsCacheKey = Some v"
  shows "getCachedCollections p s =
           (Inr (case v of CollectionsMap m \<Rightarrow> Some m | OtherValue x \<Rightarrow> None),
            s\<lparr>trace := trace s @ [CacheHas collectionsCacheKey, CacheGet collectionsCacheKey]\<rparr>)
         \<and> queries (trace (snd (getCachedCollections p s))) = queries (trace s)
         \<and> mapIndex None k = mapIndex (Some Map.empty) k"
  using assms
  by (simp add: getCachedCollections_def cacheGet_def typeAssert_def log_def Let_def mapIndex_def
           split: cache_value.splits)

theorem getCachedCollections_key_present_witness:
  "cache foreignState collectionsCacheKey = Some (OtherValue ''not a map'') \<and>
   fst (getCachedCollections demoPlugin foreignState) = Inr None \<and>
   trace (snd (getCachedCollections demoPlugin foreignState)) =
     [CacheHas collectionsCacheKey, CacheGet collectionsCacheKey] \<and>
   cache seenState collectionsCacheKey = Some (CollectionsMap [''c1'' \<mapsto> posts]) \<and>
   fst (getCachedCollections demoPlugin seenState) = Inr (Some [''c1'' \<mapsto> posts])"
proof -
  have h1: "cache foreignState collectionsCacheKey = Some (OtherValue ''not a map'')"
    by (simp add: foreignState_def)
  have h2: "cache seenState collectionsCacheKey = Some (CollectionsMap [''c1'' \<mapsto> posts])"
    by (simp add: seenState_def)
  from getCachedCollections_key_present [OF h1, of demoPlugin]
       getCachedCollections_key_present [OF h2, of demoPlugin] h1 h2
  show ?thesis by (simp add: foreignState_def seenState_def)
qed

text \<open>
  C7. \<^verbatim>\<open>refreshCachedCollections\<close> on an empty store installs the empty map and returns no
  error. When the store query fails it returns the store's error and leaves the cache as
  it was; so it does whenever it returns an error. When the query succeeds the cache
  changes by a single \<^verbatim>\<open>Set\<close> of the whole map, which has exactly the identifiers of the
  store's collections (each mapped to its definition when the identifiers are distinct).
\<close>

theorem refreshCachedCollections_all_or_nothing:
  "(\<forall>d. Dao p = Some d \<and> CollectionQueryAll d = Inr [] \<longrightarrow>
       fst (refreshCachedCollections p s) = None \<and>
       cache (snd (refreshCachedCollections p s)) =
         (cache s)(collectionsCacheKey \<mapsto> CollectionsMap Map.empty)) \<and>
   (\<forall>d err. Dao p = Some d \<and> CollectionQueryAll d = Inl err \<longrightarrow>
       fst (refreshCachedCollections p s) = Some err \<and>
       cache (snd (refreshCachedCollections p s)) = cache s) \<and>
   (fst (refreshCachedCollections p s) \<noteq> None \<longrightarrow>
       cache (snd (refreshCachedCollections p s)) = cache s) \<and>
   (\<forall>d cs. Dao p = Some d \<and> CollectionQueryAll d = Inr cs \<longrightarrow>
       fst (refreshCachedCollections p s) = None \<and>
       (\<exists>mapped. cache (snd (refreshCachedCollections p s)) =
                   (cache s)(collectionsCacheKey \<mapsto> CollectionsMap mapped) \<and>
                 trace (snd (refreshCachedCollections p s)) =
                   trace s @ [QueryAll, CacheSet collectionsCacheKey (CollectionsMap mapped)] \<and>
                 dom mapped = Id_col ` set cs \<and>
                 (distinct (map Id_col cs) \<longrightarrow>
                    (\<forall>c. c \<in> set cs \<longrightarrow> mapped (Id_col c) = Some c))))"
  by (auto simp: refreshCachedCollections_def Let_def dom_mapCollections mapCollections_distinct
           split: option.splits sum.splits)

theorem refreshCachedCollections_all_or_nothing_witness:
  "fst (refreshCachedCollections (demoPlugin\<lparr>Dao := Some emptyDao\<rparr>) seenState) = None \<and>
   cache (snd (refreshCachedCollections (demoPlugin\<lparr>Dao := Some emptyDao\<rparr>) seenState)) =
     (cache seenState)(collectionsCacheKey \<mapsto> CollectionsMap Map.empty) \<and>
   fst (refreshCachedCollections (demoPlugin\<lparr>Dao := Some lockedDao\<rparr>) seenState) =
     Some (External ''database is locked'') \<and>
   cache (snd (refreshCachedCollections (demoPlugin\<lparr>Dao := Some lockedDao\<rparr>) seenState)) =
     cache seenState \<and>
   fst (refreshCachedCollections (demoPlugin\<lparr>Dao := None\<rparr>) seenState) =
     Some (ErrorsNew ''app is not initialized yet'') \<and>
   cache (snd (refreshCachedCollections (demoPlugin\<lparr>Dao := None\<rparr>) seenState)) =
     cache seenState \<and>
   fst (refreshCachedCollections demoPlugin seenState) = None \<and>
   (\<exists>mapped. cache (snd (refreshCachedCollections demoPlugin seenState)) =
               (cache seenState)(collectionsCacheKey \<mapsto> CollectionsMap mapped) \<and>
             dom mapped = {''c1''} \<and> mapped ''c1'' = Some posts2)"
proof -
  have e: "Dao (demoPlugin\<lparr>Dao := Some emptyDao\<rparr>) = Some emptyDao \<and>
           CollectionQueryAll emptyDao = Inr []"
    by (simp add: emptyDao_def)
  have l: "Dao (demoPlugin\<lparr>Dao := Some lockedDao\<rparr>) = Some lockedDao \<and>
           CollectionQueryAll lockedDao = Inl (External ''database is locked'')"
    by (simp add: lockedDao_def)
  have n: "fst (refreshCachedCollections (demoPlugin\<lparr>Dao := None\<rparr>) seenState) \<noteq> None"
    by (simp add: refreshCachedCollections_def)
  have f: "Dao demoPlugin = Some storeDao \<and> CollectionQueryAll storeDao = Inr [posts2]"
    by (simp add: demoPlugin_def storeDao_def)
  from refreshCachedCollections_all_or_nothing [of "demoPlugin\<lparr>Dao := Some emptyDao\<rparr>" seenState]
       refreshCachedCollections_all_or_nothing [of "demoPlugin\<lparr>Dao := Some lockedDao\<rparr>" seenState]
       refreshCachedCollections_all_or_nothing [of "demoPlugin\<lparr>Dao := None\<rparr>" seenState]
       e l n
  have failing:
    "fst (refreshCachedCollections (demoPlugin\<lparr>Dao := Some emptyDao\<rparr>) seenState) = None \<and>
     cache (snd (refreshCachedCollections (demoPlugin\<lparr>Dao := Some emptyDao\<rparr>) seenState)) =
       (cache seenState)(collectionsCacheKey \<mapsto> CollectionsMap Map.empty) \<and>
     fst (refreshCachedCollections (demoPlugin\<lparr>Dao := Some lockedDao\<rparr>) seenState) =
       Some (External ''database is locked'') \<and>
     cache (snd (refreshCachedCollections (demoPlugin\<lparr>Dao := Some lockedDao\<rparr>) seenState)) =
       cache seenState \<and>
     fst (refreshCachedCollections (demoPlugin\<lparr>Dao := None\<rparr>) seenState) =
       Some (ErrorsNew ''app is not initialized yet'') \<and>
     cache (snd (refreshCachedCollections (demoPlugin\<lparr>Dao := None\<rparr>) seenState)) =
       cache seenState"
    by (simp add: refreshCachedCollections_def)
  from refreshCachedCollections_all_or_nothing [of demoPlugin seenState] f
  obtain mapped where
    ok: "fst (refreshCachedCollections demoPlugin seenState) = None" and
    m: "cache (snd (refreshCachedCollections demoPlugin seenState)) =
          (cache seenState)(collectionsCacheKey \<mapsto> CollectionsMap mapped)"
       "dom mapped = Id_col ` set [posts2]"
       "distinct (map Id_col [posts2]) \<longrightarrow>
          (\<forall>c. c \<in> set [posts2] \<longrightarrow> mapped (Id_col c) = Some c)"
    by blast
  from m(2,3) have "dom mapped = {''c1''}" "mapped ''c1'' = Some posts2"
    by (simp_all add: posts2_def)
  with failing ok m(1) show ?thesis by blast
qed

subsection \<open>Failed events\<close>

text \<open>
  C1 as the source has it. Every failing step of a collection event makes the handler
  return an error: a failed cache read and a failed store query return the store's
  error, a failed rendering, directory creation or file write return it wrapped. After
  an event that returned an error the cache is what it was whenever the cache key was
  present before the event; when the key was absent, the cache is either unchanged or
  holds the map that the cache read of line 26 loaded from the store.
\<close>

theorem failed_event_cache:
  assumes "TableName e = ''_collections''"
  shows "(\<forall>err s1. getCachedCollections p s = (Inl err, s1) \<longrightarrow>
            afterCollectionChange p sys e s = (Failure err, s1)) \<and>
         (\<forall>oc s1 d. getCachedCollections p s = (Inr oc, s1) \<and> Dao p = Some d \<longrightarrow>
            (\<forall>err. resolveNew d (GetId e) = Inl err \<longrightarrow>
               fst (afterCollectionChange p sys e s) = Failure err) \<and>
            (\<forall>new. resolveNew d (GetId e) = Inr new \<longrightarrow>
               (\<forall>te. renderTemplate p new (mapIndex oc (GetId e)) = Inl te \<longrightarrow>
                  fst (afterCollectionChange p sys e s) =
                    Failure (Errorf ''failed to resolve template'' te)) \<and>
               (\<forall>template action.
                  renderTemplate p new (mapIndex oc (GetId e)) = Inr template \<and>
                  actionLabel new (mapIndex oc (GetId e)) = Some action \<longrightarrow>
                  (\<forall>err. MkdirAllErr sys (Dir p) = Some err \<longrightarrow>
                     fst (afterCollectionChange p sys e s) =
                       Failure (Errorf ''failed to create migration dir'' err)) \<and>
                  (\<forall>err. MkdirAllErr sys (Dir p) = None \<and>
                         WriteFileErr sys (fileDest p sys action) = Some err \<longrightarrow>
                     fst (afterCollectionChange p sys e s) =
                       Failure (Errorf ''failed to save automigrate file'' err))))) \<and>
         (\<forall>err s'. afterCollectionChange p sys e s = (Failure err, s') \<longrightarrow>
            (cache s collectionsCacheKey \<noteq> None \<longrightarrow> cache s' = cache s) \<and>
            (cache s' = cache s \<or>
             (\<exists>d cs. Dao p = Some d \<and> CollectionQueryAll d = Inr cs \<and>
                cache s' = (cache s)(collectionsCacheKey \<mapsto>
                             CollectionsMap (mapCollections Map.empty cs)))))"
proof (intro conjI)
  show "\<forall>err s1. getCachedCollections p s = (Inl err, s1) \<longrightarrow>
            afterCollectionChange p sys e s = (Failure err, s1)"
    using assms by (simp add: afterCollectionChange_def)
next
  show "\<forall>oc s1 d. getCachedCollections p s = (Inr oc, s1) \<and> Dao p = Some d \<longrightarrow>
            (\<forall>err. resolveNew d (GetId e) = Inl err \<longrightarrow>
               fst (afterCollectionChange p sys e s) = Failure err) \<and>
            (\<forall>new. resolveNew d (GetId e) = Inr new \<longrightarrow>
               (\<forall>te. renderTemplate p new (mapIndex oc (GetId e)) = Inl te \<longrightarrow>
                  fst (afterCollectionChange p sys e s) =
                    Failure (Errorf ''failed to resolve template'' te)) \<and>
               (\<forall>template action.
                  renderTemplate p new (mapIndex oc (GetId e)) = Inr template \<and>
                  actionLabel new (mapIndex oc (GetId e)) = Some action \<longrightarrow>
                  (\<forall>err. MkdirAllErr sys (Dir p) = Some err \<longrightarrow>
                     fst (afterCollectionChange p sys e s) =
                       Failure (Errorf ''failed to create migration dir'' err)) \<and>
                  (\<forall>err. MkdirAllErr sys (Dir p) = None \<and>
                         WriteFileErr sys (fileDest p sys action) = Some err \<longrightarrow>
                     fst (afterCollectionChange p sys e s) =
                       Failure (Errorf ''failed to save automigrate file'' err))))"
    using assms by (simp add: handler_unfold writeSnapshot_def Let_def)
next
  show "\<forall>err s'. afterCollectionChange p sys e s = (Failure err, s') \<longrightarrow>
            (cache s collectionsCacheKey \<noteq> None \<longrightarrow> cache s' = cache s) \<and>
            (cache s' = cache s \<or>
             (\<exists>d cs. Dao p = Some d \<and> CollectionQueryAll d = Inr cs \<and>
                cache s' = (cache s)(collectionsCacheKey \<mapsto>
                             CollectionsMap (mapCollections Map.empty cs))))"
  proof (intro allI impI)
    fix err s' assume "afterCollectionChange p sys e s = (Failure err, s')"
    from handler_failure_cache [OF assms this]
    obtain r s1 where g: "getCachedCollections p s = (r, s1)" and c: "cache s' = cache s1"
      by blast
    from getCached_cache_cases [OF g] c
    show "(cache s collectionsCacheKey \<noteq> None \<longrightarrow> cache s' = cache s) \<and>
            (cache s' = cache s \<or>
             (\<exists>d cs. Dao p = Some d \<and> CollectionQueryAll d = Inr cs \<and>
                cache s' = (cache s)(collectionsCacheKey \<mapsto>
                             CollectionsMap (mapCollections Map.empty cs))))"
      by (cases r) auto
  qed
qed

theorem failed_event_cache_witness:
  "fst (afterCollectionChange (demoPlugin\<lparr>Dao := Some lockedDao\<rparr>) demoSys collEvent freshState) =
     Failure (External ''database is locked'') \<and>
   cache (snd (afterCollectionChange (demoPlugin\<lparr>Dao := Some lockedDao\<rparr>) demoSys collEvent
     freshState)) = cache freshState \<and>
   fst (afterCollectionChange (demoPlugin\<lparr>Dao := Some brokenDao\<rparr>) demoSys collEvent seenState) =
     Failure (External ''connection lost'') \<and>
   cache (snd (afterCollectionChange (demoPlugin\<lparr>Dao := Some brokenDao\<rparr>) demoSys collEvent
     seenState)) = cache seenState \<and>
   fst (afterCollectionChange (demoPlugin\<lparr>jsDiffTemplate := strictTemplate\<rparr>) demoSys collEvent
     unchangedState) =
     Failure (Errorf ''failed to resolve template'' (ErrorsNew ''empty template'')) \<and>
   cache (snd (afterCollectionChange (demoPlugin\<lparr>jsDiffTemplate := strictTemplate\<rparr>) demoSys
     collEvent unchangedState)) = cache unchangedState \<and>
   fst (afterCollectionChange demoPlugin readOnlySys collEvent seenState) =
     Failure (Errorf ''failed to create migration dir'' (External ''permission denied'')) \<and>
   cache (snd (afterCollectionChange demoPlugin readOnlySys collEvent seenState)) =
     cache seenState \<and>
   fst (afterCollectionChange demoPlugin fullDiskSys collEvent seenState) =
     Failure (Errorf ''failed to save automigrate file'' (External ''no space left on device'')) \<and>
   cache (snd (afterCollectionChange demoPlugin fullDiskSys collEvent seenState)) =
     cache seenState"
proof -
  let ?p1 = "demoPlugin\<lparr>Dao := Some lockedDao\<rparr>"
  let ?p2 = "demoPlugin\<lparr>Dao := Some brokenDao\<rparr>"
  let ?p3 = "demoPlugin\<lparr>jsDiffTemplate := strictTemplate\<rparr>"
  let ?h1 = "afterCollectionChange ?p1 demoSys collEvent freshState"
  let ?h2 = "afterCollectionChange ?p2 demoSys collEvent seenState"
  let ?h3 = "afterCollectionChange ?p3 demoSys collEvent unchangedState"
  let ?h4 = "afterCollectionChange demoPlugin readOnlySys collEvent seenState"
  let ?h5 = "afterCollectionChange demoPlugin fullDiskSys collEvent seenState"
  have c: "TableName collEvent = ''_collections''" by (simp add: collEvent_def)
  have key: "cache seenState collectionsCacheKey \<noteq> None"
            "cache unchangedState collectionsCacheKey \<noteq> None"
    by (simp_all add: seenState_def unchangedState_def)
  have d: "Dao ?p2 = Some brokenDao" "Dao ?p3 = Some storeDao" "Dao demoPlugin = Some storeDao"
    by (simp_all add: demoPlugin_def)
  have n2: "resolveNew brokenDao (GetId collEvent) = Inl (External ''connection lost'')"
    by (simp add: resolveNew_def brokenDao_def)
  have n: "resolveNew storeDao (GetId collEvent) = Inr (Some posts2)"
    by (simp add: resolveNew_def storeDao_def collEvent_def)
  have o3: "mapIndex (Some [''c1'' \<mapsto> posts2]) (GetId collEvent) = Some posts2"
    and o: "mapIndex (Some [''c1'' \<mapsto> posts]) (GetId collEvent) = Some posts"
    by (simp_all add: mapIndex_def collEvent_def)
  have r3: "renderTemplate ?p3 (Some posts2) (Some posts2) = Inl (ErrorsNew ''empty template'')"
    by (simp add: renderTemplate_def demoPlugin_def strictTemplate_def)
  have r: "renderTemplate demoPlugin (Some posts2) (Some posts) = Inr ''migration script''"
    by (simp add: renderTemplate_def demoPlugin_def scriptTemplate_def)
  have a: "actionLabel (Some posts2) (Some posts) = Some (''updated_'' @ Name posts)"
    by (simp add: actionLabel_def)
  have m4: "MkdirAllErr readOnlySys (Dir demoPlugin) = Some (External ''permission denied'')"
    by (simp add: readOnlySys_def)
  have m5: "MkdirAllErr fullDiskSys (Dir demoPlugin) = None \<and>
            WriteFileErr fullDiskSys (fileDest demoPlugin fullDiskSys (''updated_'' @ Name posts)) =
              Some (External ''no space left on device'')"
    by (simp add: fullDiskSys_def demoSys_def)
  note t1 = failed_event_cache [OF c, of ?p1 freshState demoSys]
  note t2 = failed_event_cache [OF c, of ?p2 seenState demoSys]
  note t3 = failed_event_cache [OF c, of ?p3 unchangedState demoSys]
  note t4 = failed_event_cache [OF c, of demoPlugin seenState readOnlySys]
  note t5 = failed_event_cache [OF c, of demoPlugin seenState fullDiskSys]
  from t1 fresh_locked_getCached
  have e1: "?h1 = (Failure (External ''database is locked''),
                   snd (getCachedCollections ?p1 freshState))"
    by blast
  then have f1: "fst ?h1 = Failure (External ''database is locked'')" by simp
  from t2 seen_getCached [of ?p2] d(1) n2
  have f2: "fst ?h2 = Failure (External ''connection lost'')" by blast
  from t3 unchanged_getCached [of ?p3] d(2) n o3 r3
  have f3: "fst ?h3 = Failure (Errorf ''failed to resolve template'' (ErrorsNew ''empty template''))"
    by (simp only:)
  from t4 seen_getCached [of demoPlugin] d(3) n o r a m4
  have f4: "fst ?h4 = Failure (Errorf ''failed to create migration dir'' (External ''permission denied''))"
    by (simp only:)
  from t5 seen_getCached [of demoPlugin] d(3) n o r a m5
  have f5: "fst ?h5 = Failure (Errorf ''failed to save automigrate file''
                                 (External ''no space left on device''))"
    by (simp only:)
  have l: "\<not> (\<exists>d cs. Dao ?p1 = Some d \<and> CollectionQueryAll d = Inr cs \<and>
               cache (snd ?h1) = (cache freshState)(collectionsCacheKey \<mapsto>
                  CollectionsMap (mapCollections Map.empty cs)))"
    by (simp add: lockedDao_def)
  from f1 have "?h1 = (Failure (External ''database is locked''), snd ?h1)"
    by (simp add: prod_eq_iff)
  with t1 l have c1: "cache (snd ?h1) = cache freshState" by blast
  from f2 have "?h2 = (Failure (External ''connection lost''), snd ?h2)"
    by (simp add: prod_eq_iff)
  with t2 key have c2: "cache (snd ?h2) = cache seenState" by blast
  from f3 have "?h3 = (Failure (Errorf ''failed to resolve template'' (ErrorsNew ''empty template'')),
                       snd ?h3)"
    by (simp add: prod_eq_iff)
  with t3 key have c3: "cache (snd ?h3) = cache unchangedState" by blast
  from f4 have "?h4 = (Failure (Errorf ''failed to create migration dir''
                                  (External ''permission denied'')), snd ?h4)"
    by (simp add: prod_eq_iff)
  with t4 key have c4: "cache (snd ?h4) = cache seenState" by blast
  from f5 have "?h5 = (Failure (Errorf ''failed to save automigrate file''
                                 (External ''no space left on device'')), snd ?h5)"
    by (simp add: prod_eq_iff)
  with t5 key have c5: "cache (snd ?h5) = cache seenState" by blast
  from f1 c1 f2 c2 f3 c3 f4 c4 f5 c5 show ?thesis by blast
qed

text \<open>
  C1 as stated fails: with an empty cache and a migrations directory that cannot be
  created the handler returns the error, and the cache, empty before the event, now
  holds the collections of the store (read after the change).
\<close>

theorem failed_event_cache_counterexample:
  "cache freshState collectionsCacheKey = None \<and>
   fst (afterCollectionChange demoPlugin readOnlySys collEvent freshState) =
     Failure (Errorf ''failed to create migration dir'' (External ''permission denied'')) \<and>
   mapIndex (typeAssert (cache (snd (afterCollectionChange demoPlugin readOnlySys collEvent
      freshState)) collectionsCacheKey)) (GetId collEvent) = Some posts2 \<and>
   cache (snd (afterCollectionChange demoPlugin readOnlySys collEvent freshState)) \<noteq>
     cache freshState"
proof -
  let ?s = "snd (afterCollectionChange demoPlugin readOnlySys collEvent freshState)"
  have a: "cache freshState collectionsCacheKey = None" by (simp add: freshState_def)
  have b: "fst (afterCollectionChange demoPlugin readOnlySys collEvent freshState) =
     Failure (Errorf ''failed to create migration dir'' (External ''permission denied''))"
    by (simp add: model_defs shared_defs freshState_def readOnlySys_def)
  have c: "mapIndex (typeAssert (cache ?s collectionsCacheKey)) (GetId collEvent) = Some posts2"
    by (simp add: model_defs shared_defs freshState_def readOnlySys_def)
  have "cache ?s collectionsCacheKey \<noteq> None"
    by (simp add: model_defs shared_defs freshState_def readOnlySys_def)
  with a have "cache ?s \<noteq> cache freshState" by metis
  with a b c show ?thesis by blast
qed

subsection \<open>Unchanged definitions\<close>

text \<open>
  C2 as the source has it. When the old and the new definition are both present (equal
  or not) the handler has no outcome that is a success without a write: if the renderer
  reports an error, the handler returns it wrapped, writes no file and does not refresh
  the cache; and it returns success only after it has written the rendered script to
  the file named after \<^verbatim>\<open>updated_\<close> and the old name.
\<close>

theorem unchanged_definition_no_noop:
  assumes "TableName e = ''_collections''"
    and "getCachedCollections p s = (Inr oldCollections, s1)"
    and "Dao p = Some d"
    and "resolveNew d (GetId e) = Inr (Some newc)"
    and "mapIndex oldCollections (GetId e) = Some oldc"
  shows "(\<forall>te. renderTemplate p (Some newc) (Some oldc) = Inl te \<longrightarrow>
            afterCollectionChange p sys e s =
              (Failure (Errorf ''failed to resolve template'' te),
               log Render (log (QueryFind (GetId e)) s1)) \<and>
            writes (trace (snd (afterCollectionChange p sys e s))) = writes (trace s) \<and>
            cache (snd (afterCollectionChange p sys e s)) = cache s1) \<and>
         (\<forall>s'. afterCollectionChange p sys e s = (Success, s') \<longrightarrow>
            (\<exists>template. renderTemplate p (Some newc) (Some oldc) = Inr template \<and>
               writes (trace s') =
                 writes (trace s) @ [(fileDest p sys (''updated_'' @ Name oldc), template)]))"
proof -
  have u: "afterCollectionChange p sys e s =
             writeSnapshot p sys (Some oldc) (Some newc) (log (QueryFind (GetId e)) s1)"
    using assms by (simp add: handler_unfold)
  have k: "writes (trace s1) = writes (trace s)"
    using getCached_keeps_files [OF assms(2)] by simp
  have "\<forall>te. renderTemplate p (Some newc) (Some oldc) = Inl te \<longrightarrow>
            afterCollectionChange p sys e s =
              (Failure (Errorf ''failed to resolve template'' te),
               log Render (log (QueryFind (GetId e)) s1)) \<and>
            writes (trace (snd (afterCollectionChange p sys e s))) = writes (trace s) \<and>
            cache (snd (afterCollectionChange p sys e s)) = cache s1"
    using k by (simp add: u writeSnapshot_def Let_def)
  moreover have "\<forall>s'. afterCollectionChange p sys e s = (Success, s') \<longrightarrow>
            (\<exists>template. renderTemplate p (Some newc) (Some oldc) = Inr template \<and>
               writes (trace s') =
                 writes (trace s) @ [(fileDest p sys (''updated_'' @ Name oldc), template)])"
  proof (intro allI impI)
    fix s' assume "afterCollectionChange p sys e s = (Success, s')"
    with u have "writeSnapshot p sys (Some oldc) (Some newc) (log (QueryFind (GetId e)) s1)
                   = (Success, s')" by simp
    from writeSnapshot_success [OF this] k
    show "\<exists>template. renderTemplate p (Some newc) (Some oldc) = Inr template \<and>
               writes (trace s') =
                 writes (trace s) @ [(fileDest p sys (''updated_'' @ Name oldc), template)]"
      by (auto simp: actionLabel_def)
  qed
  ultimately show ?thesis by blast
qed

theorem unchanged_definition_no_noop_witness:
  "resolveNew storeDao (GetId collEvent) = Inr (Some posts2) \<and>
   mapIndex (Some [''c1'' \<mapsto> posts2]) (GetId collEvent) = Some posts2 \<and>
   renderTemplate (demoPlugin\<lparr>jsDiffTemplate := strictTemplate\<rparr>) (Some posts2) (Some posts2) =
     Inl (ErrorsNew ''empty template'') \<and>
   fst (afterCollectionChange (demoPlugin\<lparr>jsDiffTemplate := strictTemplate\<rparr>) demoSys collEvent
          unchangedState) =
     Failure (Errorf ''failed to resolve template'' (ErrorsNew ''empty template'')) \<and>
   writes (trace (snd (afterCollectionChange (demoPlugin\<lparr>jsDiffTemplate := strictTemplate\<rparr>)
          demoSys collEvent unchangedState))) = writes (trace unchangedState) \<and>
   fst (afterCollectionChange demoPlugin demoSys collEvent unchangedState) = Success \<and>
   (\<exists>template. renderTemplate demoPlugin (Some posts2) (Some posts2) = Inr template \<and>
      writes (trace (snd (afterCollectionChange demoPlugin demoSys collEvent unchangedState))) =
        writes (trace unchangedState) @
          [(fileDest demoPlugin demoSys (''updated_'' @ Name posts2), template)])"
proof -
  let ?q = "demoPlugin\<lparr>jsDiffTemplate := strictTemplate\<rparr>"
  let ?h = "afterCollectionChange demoPlugin demoSys collEvent unchangedState"
  have c: "TableName collEvent = ''_collections''" by (simp add: collEvent_def)
  have d: "Dao demoPlugin = Some storeDao" "Dao ?q = Some storeDao"
    by (simp_all add: demoPlugin_def)
  have n: "resolveNew storeDao (GetId collEvent) = Inr (Some posts2)"
    by (simp add: resolveNew_def storeDao_def collEvent_def)
  have o: "mapIndex (Some [''c1'' \<mapsto> posts2]) (GetId collEvent) = Some posts2"
    by (simp add: mapIndex_def collEvent_def)
  have r: "renderTemplate ?q (Some posts2) (Some posts2) = Inl (ErrorsNew ''empty template'')"
    by (simp add: renderTemplate_def demoPlugin_def strictTemplate_def)
  have s0: "fst ?h = Success"
    by (simp add: model_defs shared_defs unchangedState_def)
  then have s: "?h = (Success, snd ?h)"
    by (simp add: prod_eq_iff)
  from unchanged_definition_no_noop [OF c unchanged_getCached d(2) n o, of demoSys] r
  have f: "afterCollectionChange ?q demoSys collEvent unchangedState =
             (Failure (Errorf ''failed to resolve template'' (ErrorsNew ''empty template'')),
              log Render (log (QueryFind (GetId collEvent))
                (snd (getCachedCollections ?q unchangedState))))"
    and b: "writes (trace (snd (afterCollectionChange ?q demoSys collEvent unchangedState))) =
              writes (trace unchangedState)"
    by blast+
  from f have a: "fst (afterCollectionChange ?q demoSys collEvent unchangedState) =
             Failure (Errorf ''failed to resolve template'' (ErrorsNew ''empty template''))"
    by simp
  from unchanged_definition_no_noop [OF c unchanged_getCached d(1) n o, of demoSys] s
  have "\<exists>template. renderTemplate demoPlugin (Some posts2) (Some posts2) = Inr template \<and>
      writes (trace (snd ?h)) =
        writes (trace unchangedState) @
          [(fileDest demoPlugin demoSys (''updated_'' @ Name posts2), template)]"
    by blast
  with a b n o r s0 show ?thesis by blast
qed

text \<open>
  C2 as stated fails for two equal definitions: with a renderer that reports the empty
  diff as an error the handler returns an error, and with a renderer that returns a
  script it writes the file.
\<close>

theorem empty_diff_counterexample:
  "mapIndex (typeAssert (cache unchangedState collectionsCacheKey)) (GetId collEvent) = Some posts2 \<and>
   resolveNew storeDao (GetId collEvent) = Inr (Some posts2) \<and>
   fst (afterCollectionChange (demoPlugin\<lparr>jsDiffTemplate := strictTemplate\<rparr>) demoSys collEvent
          unchangedState) =
     Failure (Errorf ''failed to resolve template'' (ErrorsNew ''empty template'')) \<and>
   fst (afterCollectionChange demoPlugin demoSys collEvent unchangedState) = Success \<and>
   writes (trace (snd (afterCollectionChange demoPlugin demoSys collEvent unchangedState))) =
     [(''pb_migrations/1700000000_updated_posts.js'', ''migration script'')]"
  by (simp add: model_defs shared_defs unchangedState_def strictTemplate_def showInt_demo filepath_Join_def filepath_Clean_def)

subsection \<open>Deleted collections\<close>

text \<open>
  C3. When the store query of line 33 fails with an error that is
  \<^verbatim>\<open>sql.ErrNoRows\<close>, the new definition is absent and the handler goes on with
  the rendering (so, with the old definition cached and no failure afterwards, it
  returns success); with any other error it returns that error, unwrapped.
\<close>

theorem not_found_is_absence:
  assumes "TableName e = ''_collections''"
    and "getCachedCollections p s = (Inr oldCollections, s1)"
    and "Dao p = Some d"
    and "FindCollectionByNameOrId d (GetId e) = Inl err"
  shows "(errors_Is err ErrNoRows \<longrightarrow>
            resolveNew d (GetId e) = Inr None \<and>
            afterCollectionChange p sys e s =
              writeSnapshot p sys (mapIndex oldCollections (GetId e)) None
                (log (QueryFind (GetId e)) s1)) \<and>
         (errors_Is err ErrNoRows \<and> mapIndex oldCollections (GetId e) = Some oldc \<and>
          renderTemplate p None (Some oldc) = Inr template \<and>
          MkdirAllErr sys (Dir p) = None \<and>
          WriteFileErr sys (fileDest p sys (''deleted_'' @ Name oldc)) = None \<longrightarrow>
            fst (afterCollectionChange p sys e s) = Success) \<and>
         (\<not> errors_Is err ErrNoRows \<longrightarrow>
            afterCollectionChange p sys e s = (Failure err, log (QueryFind (GetId e)) s1))"
  using assms
  by (auto simp: handler_unfold resolveNew_def writeSnapshot_def actionLabel_def Let_def)

theorem not_found_is_absence_witness:
  "FindCollectionByNameOrId emptyDao (GetId collEvent) = Inl ErrNoRows \<and>
   errors_Is ErrNoRows ErrNoRows \<and>
   resolveNew emptyDao (GetId collEvent) = Inr None \<and>
   fst (afterCollectionChange (demoPlugin\<lparr>Dao := Some emptyDao\<rparr>) demoSys collEvent seenState)
     = Success \<and>
   FindCollectionByNameOrId brokenDao (GetId collEvent) = Inl (External ''connection lost'') \<and>
   \<not> errors_Is (External ''connection lost'') ErrNoRows \<and>
   fst (afterCollectionChange (demoPlugin\<lparr>Dao := Some brokenDao\<rparr>) demoSys collEvent seenState)
     = Failure (External ''connection lost'')"
proof -
  have c: "TableName collEvent = ''_collections''" by (simp add: collEvent_def)
  have f1: "FindCollectionByNameOrId emptyDao (GetId collEvent) = Inl ErrNoRows"
    by (simp add: emptyDao_def)
  have f2: "FindCollectionByNameOrId brokenDao (GetId collEvent) = Inl (External ''connection lost'')"
    by (simp add: brokenDao_def)
  have d1: "Dao (demoPlugin\<lparr>Dao := Some emptyDao\<rparr>) = Some emptyDao" by simp
  have d2: "Dao (demoPlugin\<lparr>Dao := Some brokenDao\<rparr>) = Some brokenDao" by simp
  have o: "mapIndex (Some [''c1'' \<mapsto> posts]) (GetId collEvent) = Some posts"
    by (simp add: mapIndex_def collEvent_def)
  have r: "renderTemplate (demoPlugin\<lparr>Dao := Some emptyDao\<rparr>) None (Some posts) =
             Inr ''migration script''"
    by (simp add: renderTemplate_def demoPlugin_def scriptTemplate_def)
  have m: "MkdirAllErr demoSys (Dir (demoPlugin\<lparr>Dao := Some emptyDao\<rparr>)) = None"
          "WriteFileErr demoSys (fileDest (demoPlugin\<lparr>Dao := Some emptyDao\<rparr>) demoSys
             (''deleted_'' @ Name posts)) = None"
    by (simp_all add: demoSys_def)
  have e1: "errors_Is ErrNoRows ErrNoRows" by simp
  have e2: "\<not> errors_Is (External ''connection lost'') ErrNoRows" by simp
  from not_found_is_absence [OF c seen_getCached d1 f1, of demoSys posts "''migration script''"] e1 o r m
  have a: "resolveNew emptyDao (GetId collEvent) = Inr None"
    and b: "fst (afterCollectionChange (demoPlugin\<lparr>Dao := Some emptyDao\<rparr>) demoSys collEvent
                   seenState) = Success"
    by blast+
  from not_found_is_absence [OF c seen_getCached d2 f2, of demoSys] e2
  have "afterCollectionChange (demoPlugin\<lparr>Dao := Some brokenDao\<rparr>) demoSys collEvent seenState =
          (Failure (External ''connection lost''),
           log (QueryFind (GetId collEvent))
             (snd (getCachedCollections (demoPlugin\<lparr>Dao := Some brokenDao\<rparr>) seenState)))"
    by blast
  then have "fst (afterCollectionChange (demoPlugin\<lparr>Dao := Some brokenDao\<rparr>) demoSys collEvent
                    seenState) = Failure (External ''connection lost'')"
    by simp
  with a b f1 f2 e1 e2 show ?thesis by blast
qed

subsection \<open>The cache after a successful event\<close>

text \<open>
  C4 fails on the source: the error of the refresh on line 71 is dropped. With a store
  whose list query fails while the lookup succeeds, the handler returns success and the
  cache still holds the definition of before the change.
\<close>

theorem stale_cache_after_success:
  "resolveNew lockedDao (GetId collEvent) = Inr (Some posts2) \<and>
   fst (refreshCachedCollections (demoPlugin\<lparr>Dao := Some lockedDao\<rparr>) seenState) =
     Some (External ''database is locked'') \<and>
   fst (afterCollectionChange (demoPlugin\<lparr>Dao := Some lockedDao\<rparr>) demoSys collEvent seenState) =
     Success \<and>
   mapIndex (typeAssert (cache (snd (afterCollectionChange (demoPlugin\<lparr>Dao := Some lockedDao\<rparr>)
      demoSys collEvent seenState)) collectionsCacheKey)) (GetId collEvent) = Some posts \<and>
   posts \<noteq> posts2"
  by (simp add: model_defs shared_defs lockedDao_def)

subsection \<open>The migration file\<close>




text \<open>
  C8. A successful collection event writes one file, whose path is
  \<^verbatim>\<open>filepath.Join\<close> of the migrations directory and
  \<^verbatim>\<open><unix time>_<action>.<template language>\<close>, where the action is \<^verbatim>\<open>deleted_\<close> and
  the old name when the new definition is absent, \<^verbatim>\<open>created_\<close> and the new name when
  the old definition is absent, and \<^verbatim>\<open>updated_\<close> and the old name otherwise.
\<close>

theorem migration_file_path:
  assumes "TableName e = ''_collections''"
    and "afterCollectionChange p sys e s = (Success, s')"
    and "getCachedCollections p s = (Inr oldCollections, s1)"
    and "Dao p = Some d"
    and "resolveNew d (GetId e) = Inr new"
    and "old = mapIndex oldCollections (GetId e)"
  shows "\<exists>action template.
           writes (trace s') = writes (trace s) @
             [(filepath_Join [Dir p, showInt (Now sys) @ ''_'' @ action @ ''.'' @ TemplateLang p],
               template)] \<and>
           ((new = None \<and> (\<exists>oldc. old = Some oldc \<and> action = ''deleted_'' @ Name oldc)) \<or>
            (old = None \<and> (\<exists>newc. new = Some newc \<and> action = ''created_'' @ Name newc)) \<or>
            (\<exists>oldc newc. old = Some oldc \<and> new = Some newc \<and> action = ''updated_'' @ Name oldc))"
proof -
  from handler_success [OF assms(1,2)] assms(3-6)
  obtain action template where
    a: "actionLabel new old = Some action" and
    w: "writes (trace s') = writes (trace s) @ [(fileDest p sys action, template)]"
    by auto
  from a have "(new = None \<and> (\<exists>oldc. old = Some oldc \<and> action = ''deleted_'' @ Name oldc)) \<or>
            (old = None \<and> (\<exists>newc. new = Some newc \<and> action = ''created_'' @ Name newc)) \<or>
            (\<exists>oldc newc. old = Some oldc \<and> new = Some newc \<and> action = ''updated_'' @ Name oldc)"
    by (auto simp: actionLabel_def split: option.splits)
  with w show ?thesis unfolding fileDest_def by blast
qed

theorem migration_file_path_witness:
  "TableName collEvent = ''_collections'' \<and>
   fst (afterCollectionChange demoPlugin demoSys collEvent seenState) = Success \<and>
   resolveNew storeDao (GetId collEvent) = Inr (Some posts2) \<and>
   mapIndex (Some [''c1'' \<mapsto> posts]) (GetId collEvent) = Some posts \<and>
   (\<exists>action template.
      writes (trace (snd (afterCollectionChange demoPlugin demoSys collEvent seenState))) =
        writes (trace seenState) @
          [(filepath_Join [Dir demoPlugin, showInt (Now demoSys) @ ''_'' @ action @ ''.'' @
                             TemplateLang demoPlugin], template)] \<and>
      action = ''updated_'' @ Name posts)"
proof -
  let ?h = "afterCollectionChange demoPlugin demoSys collEvent seenState"
  have h1: "TableName collEvent = ''_collections''" by (simp add: collEvent_def)
  have h2: "?h = (Success, snd ?h)" using demo_run_success by (simp add: prod_eq_iff)
  have h4: "Dao demoPlugin = Some storeDao" by (simp add: demoPlugin_def)
  have h5: "resolveNew storeDao (GetId collEvent) = Inr (Some posts2)"
    by (simp add: resolveNew_def storeDao_def collEvent_def)
  have h6: "Some posts = mapIndex (Some [''c1'' \<mapsto> posts]) (GetId collEvent)"
    by (simp add: mapIndex_def collEvent_def)
  from migration_file_path [OF h1 h2 seen_getCached h4 h5 h6] h1 h2 h5 h6
  show ?thesis by (auto simp: demo_run_success)
qed

subsection \<open>Both definitions absent\<close>




end
